theory Spec2Isabelle
  imports Complex_Main "HOL-Library.Word"
begin

section \<open>Values shared by the whole program\<close>

text \<open>
  \<^verbatim>\<open>main.go\<close> keeps its state in package-level variables: the cart counter
  (\<^verbatim>\<open>cartCount int64 = 0\<close>) and the handles of the tracer and of the three instruments.
  The counter is a 64-bit two's complement integer, so \<open>+\<close> and \<open>-\<close> wrap around.
\<close>

type_synonym int64 = "64 word"

datatype attr_value = AttrBool bool | AttrInt64 int64

type_synonym key_value = "string \<times> attr_value"

text \<open>A context carries the active span, if any; a span handle is its index in the recorder.\<close>

type_synonym go_context = "nat option"

datatype error =
    DuplicateInstrumentError
  | InvalidArgument
  | Failure string
  | Errorf string error

definition serviceName :: string where
  "serviceName = ''test-service''"

definition collectorURL :: string where
  "collectorURL = ''localhost:4317''"

section \<open>The HTTP side: response writer and request\<close>

text \<open>
  Of \<^verbatim>\<open>http.ResponseWriter\<close> the handlers use \<^verbatim>\<open>WriteHeader\<close>, \<^verbatim>\<open>Write\<close> and
  \<^verbatim>\<open>http.Error\<close>. The status line is sent once: a later \<^verbatim>\<open>WriteHeader\<close> is ignored,
  and a \<^verbatim>\<open>Write\<close> before any \<^verbatim>\<open>WriteHeader\<close> sends 200 first. Response headers are not
  modelled.
\<close>

record response_writer =
  w_status :: "nat option"
  w_body :: string

definition new_writer :: response_writer where
  "new_writer = \<lparr>w_status = None, w_body = []\<rparr>"

definition WriteHeader :: "nat \<Rightarrow> response_writer \<Rightarrow> response_writer" where
  "WriteHeader code w = (if w_status w = None then w\<lparr>w_status := Some code\<rparr> else w)"

definition Write :: "string \<Rightarrow> response_writer \<Rightarrow> response_writer" where
  "Write b w = (let w1 = WriteHeader 200 w in w1\<lparr>w_body := w_body w1 @ b\<rparr>)"

text \<open>\<^verbatim>\<open>http.Error\<close> writes the status code and then the message followed by a newline.\<close>

definition http_Error :: "response_writer \<Rightarrow> string \<Rightarrow> nat \<Rightarrow> response_writer" where
  "http_Error w msg code = Write (msg @ [CHR 0x0A]) (WriteHeader code w)"

record request =
  URL_Path :: string
  Context :: go_context

text \<open>\<^verbatim>\<open>fmt.Sprintf("%d", n)\<close> for an \<^verbatim>\<open>int64\<close>: signed decimal.\<close>

definition digit_char :: "nat \<Rightarrow> char" where
  "digit_char d = char_of (48 + d)"

function show_nat :: "nat \<Rightarrow> string" where
  "show_nat n = (if n < 10 then [digit_char n] else show_nat (n div 10) @ [digit_char (n mod 10)])"
  by pat_completeness auto
termination
  by (relation "measure id") auto

definition show_int64 :: "int64 \<Rightarrow> string" where
  "show_int64 c = (if sint c < 0 then CHR ''-'' # show_nat (nat (- sint c)) else show_nat (nat (sint c)))"

section \<open>The telemetry calls the handlers make\<close>

text \<open>
  The handlers reach the OpenTelemetry SDK through six calls. In Go none of them returns
  a value to the handler besides \<^verbatim>\<open>tracer.Start\<close>, which returns the child context and
  the span. The SDK is a parameter of the handlers: a record of state transformers over
  the SDK's own state \<open>'t\<close>. The clock reading is passed to the two calls that take a
  timestamp.
\<close>

record 't telemetry =
  tracer_Start :: "nat \<Rightarrow> go_context \<Rightarrow> string \<Rightarrow> 't \<Rightarrow> (go_context \<times> nat) \<times> 't"
  span_SetAttributes :: "nat \<Rightarrow> key_value list \<Rightarrow> 't \<Rightarrow> 't"
  span_End :: "nat \<Rightarrow> nat \<Rightarrow> 't \<Rightarrow> 't"
  counter_Add :: "int64 \<Rightarrow> 't \<Rightarrow> 't"
  histogram_Record :: "real \<Rightarrow> 't \<Rightarrow> 't"
  gauge_Record :: "int64 \<Rightarrow> 't \<Rightarrow> 't"

text \<open>
  The process state the handlers see: the monotonic clock in nanoseconds, the shared cart
  counter and the SDK's state.
\<close>

record 't world =
  now :: nat
  cartCount :: int64
  tel :: 't

definition on_tel :: "('t \<Rightarrow> 't) \<Rightarrow> 't world \<Rightarrow> 't world" where
  "on_tel f s = s\<lparr>tel := f (tel s)\<rparr>"

definition elapse :: "nat \<Rightarrow> 't world \<Rightarrow> 't world" where
  "elapse dt s = s\<lparr>now := now s + dt\<rparr>"

section \<open>The handlers\<close>

text \<open>
  \<^verbatim>\<open>recordLatencyHistogram(start)\<close>: \<^verbatim>\<open>time.Since(start).Seconds()\<close> is the elapsed
  monotonic time in seconds. The rounding of \<^verbatim>\<open>Seconds()\<close> to a \<^verbatim>\<open>float64\<close> is not modelled:
  the observation is the exact quotient.
\<close>

definition recordLatencyHistogram :: "'t telemetry \<Rightarrow> nat \<Rightarrow> 't world \<Rightarrow> 't world" where
  "recordLatencyHistogram T start s =
     (let latency = real (now s - start) / 1000000000
      in on_tel (histogram_Record T latency) s)"

text \<open>
  \<^verbatim>\<open>helloWorldHandler\<close>. \<open>rnd\<close> is the value drawn by \<^verbatim>\<open>rand.Float64()\<close>, a number in
  \<open>[0, 1)\<close>; \<open>dt\<close> is the monotonic time that passes while the handler runs, which the
  model lets pass before the deferred calls. The two deferred calls run when the handler
  returns, the one deferred last first.
\<close>

definition helloWorldHandler ::
  "'t telemetry \<Rightarrow> real \<Rightarrow> nat \<Rightarrow> response_writer \<Rightarrow> request \<Rightarrow> 't world \<Rightarrow> response_writer \<times> 't world" where
  "helloWorldHandler T rnd dt w r s =
     (let ((_, span), t1) = tracer_Start T (now s) (Context r) ''helloWorldHandler'' (tel s);
          s1 = s\<lparr>tel := t1\<rparr>;
          start = now s1;
          (w', s') =
            (if rnd < 0.5 then
               (let w1 = http_Error w ''Internal Server Error'' 500;
                    s2 = on_tel (counter_Add T 1) s1;
                    s3 = on_tel (span_SetAttributes T span
                           [(''helloWorldHandler.error'', AttrBool True),
                            (''http.status'', AttrInt64 500)]) s2
                in (w1, s3))
             else
               (let s2 = on_tel (span_SetAttributes T span
                           [(''helloWorldHandler.error'', AttrBool False),
                            (''http.status'', AttrInt64 200)]) s1;
                    w1 = WriteHeader 200 w;
                    w2 = Write ''Hello, World!'' w1
                in (w2, s2)));
          s4 = elapse dt s';
          s5 = recordLatencyHistogram T start s4;
          s6 = on_tel (span_End T (now s5) span) s5
      in (w', s6))"

definition cartAddHandler ::
  "'t telemetry \<Rightarrow> nat \<Rightarrow> response_writer \<Rightarrow> request \<Rightarrow> 't world \<Rightarrow> response_writer \<times> 't world" where
  "cartAddHandler T dt w r s =
     (let s1 = s\<lparr>cartCount := cartCount s + 1\<rparr>;
          s2 = on_tel (gauge_Record T (cartCount s1)) s1;
          ((_, span), t3) = tracer_Start T (now s2) (Context r) ''cartAddHandler'' (tel s2);
          s3 = s2\<lparr>tel := t3\<rparr>;
          s4 = on_tel (span_SetAttributes T span
                 [(''cartAddHandler.cartCount'', AttrInt64 (cartCount s3))]) s3;
          message = ''Item added to cart. Number of items in cart: '' @ show_int64 (cartCount s4) @ ''.'';
          w1 = WriteHeader 200 w;
          w2 = Write message w1;
          s5 = elapse dt s4;
          s6 = on_tel (span_End T (now s5) span) s5
      in (w2, s6))"

definition cartRemoveHandler ::
  "'t telemetry \<Rightarrow> nat \<Rightarrow> response_writer \<Rightarrow> request \<Rightarrow> 't world \<Rightarrow> response_writer \<times> 't world" where
  "cartRemoveHandler T dt w r s =
     (let s1 = (if cartCount s \<noteq> 0 then s\<lparr>cartCount := cartCount s - 1\<rparr> else s);
          s2 = on_tel (gauge_Record T (cartCount s1)) s1;
          ((_, span), t3) = tracer_Start T (now s2) (Context r) ''cartRemoveHandler'' (tel s2);
          s3 = s2\<lparr>tel := t3\<rparr>;
          s4 = on_tel (span_SetAttributes T span
                 [(''cartRemoveHandler.cartCount'', AttrInt64 (cartCount s3))]) s3;
          message = ''Item removed from cart. Number of items in cart: '' @ show_int64 (cartCount s4) @ ''.'';
          w1 = WriteHeader 200 w;
          w2 = Write message w1;
          s5 = elapse dt s4;
          s6 = on_tel (span_End T (now s5) span) s5
      in (w2, s6))"

section \<open>Serving requests one at a time\<close>

text \<open>
  \<^verbatim>\<open>main\<close> registers the three handlers with \<^verbatim>\<open>http.HandleFunc\<close> and no middleware, so
  the context of a request holds no span. A call names the handler that serves it and
  carries what the environment decides: the time that passes and, for
  \<^verbatim>\<open>helloWorldHandler\<close>, the random draw.
\<close>

datatype call = HelloWorld real nat | CartAdd nat | CartRemove nat

definition server_request :: "string \<Rightarrow> request" where
  "server_request path = \<lparr>URL_Path = path, Context = None\<rparr>"

fun handle :: "'t telemetry \<Rightarrow> call \<Rightarrow> 't world \<Rightarrow> response_writer \<times> 't world" where
  "handle T (HelloWorld rnd dt) s = helloWorldHandler T rnd dt new_writer (server_request ''/'') s"
| "handle T (CartAdd dt) s = cartAddHandler T dt new_writer (server_request ''/cart/add'') s"
| "handle T (CartRemove dt) s = cartRemoveHandler T dt new_writer (server_request ''/cart/remove'') s"

fun run :: "'t telemetry \<Rightarrow> call list \<Rightarrow> 't world \<Rightarrow> 't world" where
  "run T [] s = s"
| "run T (c # cs) s = run T cs (snd (handle T c s))"

fun is_CartAdd :: "call \<Rightarrow> bool" where
  "is_CartAdd (CartAdd dt) = True"
| "is_CartAdd c = False"

fun is_CartRemove :: "call \<Rightarrow> bool" where
  "is_CartRemove (CartRemove dt) = True"
| "is_CartRemove c = False"

section \<open>The telemetry core of the specification\<close>

text \<open>
  The OpenTelemetry SDK is a dependency of the repository and not part of its source.
  The definitions of this section follow sections 3 and 4 of the specification.
\<close>

record span =
  sp_name :: string
  sp_start :: nat
  sp_end :: "nat option"
  sp_attrs :: "key_value list"
  sp_parent :: "nat option"

text \<open>
  Modelled from the spec: the Span Recorder of section 4.2, which is SDK code.
  \<open>StartSpan\<close> opens a span at the current time, child of the span active in the
  parent context if there is one, and always succeeds; it returns the child context and
  the span.
\<close>

definition StartSpan :: "nat \<Rightarrow> go_context \<Rightarrow> string \<Rightarrow> span list \<Rightarrow> (go_context \<times> nat) \<times> span list" where
  "StartSpan t parentContext name sps =
     (let parent = (case parentContext of
                      None \<Rightarrow> None
                    | Some p \<Rightarrow> if p < length sps then Some p else None);
          sp = \<lparr>sp_name = name, sp_start = t, sp_end = None, sp_attrs = [], sp_parent = parent\<rparr>
      in ((Some (length sps), length sps), sps @ [sp]))"

text \<open>
  Modelled from the spec: \<open>SetAttributes\<close> of section 4.2, a no-op on a span that is
  already closed. The Go method has no result, so the error of the no-op is not observable.
\<close>

definition SetAttributes :: "nat \<Rightarrow> key_value list \<Rightarrow> span list \<Rightarrow> span list" where
  "SetAttributes i kvs sps =
     (if i < length sps \<and> sp_end (sps ! i) = None
      then sps[i := (sps ! i)\<lparr>sp_attrs := sp_attrs (sps ! i) @ kvs\<rparr>]
      else sps)"

text \<open>
  Modelled from the spec: \<open>EndSpan\<close> of section 4.2 finalizes the end timestamp. Calling
  it a second time is a usage error that is logged: the first end timestamp stays.
\<close>

definition EndSpan :: "nat \<Rightarrow> nat \<Rightarrow> span list \<Rightarrow> span list" where
  "EndSpan t i sps =
     (if i < length sps \<and> sp_end (sps ! i) = None
      then sps[i := (sps ! i)\<lparr>sp_end := Some t\<rparr>]
      else sps)"

text \<open>
  Modelled from the spec: \<open>Counter.Add\<close> of section 4.3, which is SDK code. The delta is
  the \<^verbatim>\<open>int64\<close> of \<^verbatim>\<open>metric.Int64Counter\<close>, read as a signed number; the specification gives
  the stored value no width, so it is an unbounded integer. The result is the error, if
  any, and the stored value after the call.
\<close>

definition Counter_Add :: "int64 \<Rightarrow> int \<Rightarrow> error option \<times> int" where
  "Counter_Add delta v =
     (if sint delta < 0 then (Some InvalidArgument, v) else (None, v + sint delta))"

text \<open>
  Modelled from the spec: \<open>Histogram.Record\<close> of section 4.3 accepts every finite value.
  The observations are real numbers here, all of them finite.
\<close>

definition Histogram_Record :: "real \<Rightarrow> real list \<Rightarrow> real list" where
  "Histogram_Record v obs = obs @ [v]"

text \<open>Modelled from the spec: \<open>Gauge.Record\<close> of section 4.3, last write wins.\<close>

definition Gauge_Record :: "int64 \<Rightarrow> int64 option \<Rightarrow> int64 option" where
  "Gauge_Record v g = Some v"

record sdk_state =
  errorCounter :: int
  latencyHistogram :: "real list"
  itemGauge :: "int64 option"
  spans :: "span list"

definition sdk_init :: sdk_state where
  "sdk_init = \<lparr>errorCounter = 0, latencyHistogram = [], itemGauge = None, spans = []\<rparr>"

text \<open>
  The six calls of the handlers, bound to the three instruments and the tracer that
  \<^verbatim>\<open>main\<close> creates. The Go \<^verbatim>\<open>Add\<close> returns nothing: the error of \<open>Counter_Add\<close> is dropped
  at the call.
\<close>

definition sdk :: "sdk_state telemetry" where
  "sdk = \<lparr>
     tracer_Start = (\<lambda>t c name st.
        (let (res, sps) = StartSpan t c name (spans st) in (res, st\<lparr>spans := sps\<rparr>))),
     span_SetAttributes = (\<lambda>i kvs st. st\<lparr>spans := SetAttributes i kvs (spans st)\<rparr>),
     span_End = (\<lambda>t i st. st\<lparr>spans := EndSpan t i (spans st)\<rparr>),
     counter_Add = (\<lambda>d st. st\<lparr>errorCounter := snd (Counter_Add d (errorCounter st))\<rparr>),
     histogram_Record = (\<lambda>v st. st\<lparr>latencyHistogram := Histogram_Record v (latencyHistogram st)\<rparr>),
     gauge_Record = (\<lambda>v st. st\<lparr>itemGauge := Gauge_Record v (itemGauge st)\<rparr>)\<rparr>"

text \<open>The state of the process when the server starts.\<close>

definition init :: "sdk_state world" where
  "init = \<lparr>now = 0, cartCount = 0, tel = sdk_init\<rparr>"

section \<open>Handlers running concurrently\<close>

text \<open>
  \<^verbatim>\<open>net/http\<close> serves every request on a goroutine of its own, and the cart handlers
  read and write \<^verbatim>\<open>cartCount\<close> with no lock and no atomic operation. Here a handler
  invocation is a thread that runs one step at a time, and every read and every write of
  \<^verbatim>\<open>cartCount\<close> is a step of its own: \<^verbatim>\<open>cartCount = cartCount + 1\<close> is a read into a
  register followed by a write. A schedule picks the thread that makes the next step.
  The two cart handlers differ in their first statement, in the span's name, in the
  attribute's key and in the message.
\<close>

datatype handler_kind = AddH | RemoveH

datatype label =
    L_test \<comment> \<open>\<^verbatim>\<open>if cartCount != 0\<close>, in \<^verbatim>\<open>cartRemoveHandler\<close> only\<close>
  | L_read \<comment> \<open>read \<^verbatim>\<open>cartCount\<close> for the assignment\<close>
  | L_write \<comment> \<open>write \<^verbatim>\<open>cartCount\<close>\<close>
  | L_read_gauge \<comment> \<open>read \<^verbatim>\<open>cartCount\<close>, the argument of \<^verbatim>\<open>itemGauge.Record\<close>\<close>
  | L_gauge \<comment> \<open>\<^verbatim>\<open>itemGauge.Record\<close>\<close>
  | L_start \<comment> \<open>\<^verbatim>\<open>tracer.Start\<close>\<close>
  | L_read_attr \<comment> \<open>read \<^verbatim>\<open>cartCount\<close>, the value of the attribute\<close>
  | L_attr \<comment> \<open>\<^verbatim>\<open>span.SetAttributes\<close>\<close>
  | L_message \<comment> \<open>read \<^verbatim>\<open>cartCount\<close> and format the message\<close>
  | L_header \<comment> \<open>\<^verbatim>\<open>w.WriteHeader\<close>\<close>
  | L_body \<comment> \<open>\<^verbatim>\<open>w.Write\<close>\<close>
  | L_end \<comment> \<open>the deferred \<^verbatim>\<open>span.End\<close>\<close>
  | L_done

record thread =
  th_kind :: handler_kind
  pc :: label
  reg :: int64
  th_span :: nat
  th_message :: string
  th_w :: response_writer
  th_r :: request
  th_dt :: nat

definition span_name :: "handler_kind \<Rightarrow> string" where
  "span_name k = (case k of AddH \<Rightarrow> ''cartAddHandler'' | RemoveH \<Rightarrow> ''cartRemoveHandler'')"

definition attr_key :: "handler_kind \<Rightarrow> string" where
  "attr_key k = (case k of AddH \<Rightarrow> ''cartAddHandler.cartCount''
                         | RemoveH \<Rightarrow> ''cartRemoveHandler.cartCount'')"

definition message_of :: "handler_kind \<Rightarrow> int64 \<Rightarrow> string" where
  "message_of k c =
     (case k of AddH \<Rightarrow> ''Item added to cart. Number of items in cart: ''
              | RemoveH \<Rightarrow> ''Item removed from cart. Number of items in cart: '')
     @ show_int64 c @ ''.''"

definition spawn :: "handler_kind \<Rightarrow> nat \<Rightarrow> thread" where
  "spawn k dt =
     \<lparr>th_kind = k,
      pc = (case k of AddH \<Rightarrow> L_read | RemoveH \<Rightarrow> L_test),
      reg = 0, th_span = 0, th_message = [], th_w = new_writer,
      th_r = server_request (case k of AddH \<Rightarrow> ''/cart/add'' | RemoveH \<Rightarrow> ''/cart/remove''),
      th_dt = dt\<rparr>"

definition step :: "'t telemetry \<Rightarrow> thread \<Rightarrow> 't world \<Rightarrow> thread \<times> 't world" where
  "step T th s =
     (case pc th of
        L_test \<Rightarrow> (th\<lparr>pc := (if cartCount s \<noteq> 0 then L_read else L_read_gauge)\<rparr>, s)
      | L_read \<Rightarrow> (th\<lparr>reg := cartCount s, pc := L_write\<rparr>, s)
      | L_write \<Rightarrow>
          (th\<lparr>pc := L_read_gauge\<rparr>,
           s\<lparr>cartCount := (case th_kind th of AddH \<Rightarrow> reg th + 1 | RemoveH \<Rightarrow> reg th - 1)\<rparr>)
      | L_read_gauge \<Rightarrow> (th\<lparr>reg := cartCount s, pc := L_gauge\<rparr>, s)
      | L_gauge \<Rightarrow> (th\<lparr>pc := L_start\<rparr>, on_tel (gauge_Record T (reg th)) s)
      | L_start \<Rightarrow>
          (let ((_, span), t1) = tracer_Start T (now s) (Context (th_r th)) (span_name (th_kind th)) (tel s)
           in (th\<lparr>th_span := span, pc := L_read_attr\<rparr>, s\<lparr>tel := t1\<rparr>))
      | L_read_attr \<Rightarrow> (th\<lparr>reg := cartCount s, pc := L_attr\<rparr>, s)
      | L_attr \<Rightarrow>
          (th\<lparr>pc := L_message\<rparr>,
           on_tel (span_SetAttributes T (th_span th) [(attr_key (th_kind th), AttrInt64 (reg th))]) s)
      | L_message \<Rightarrow>
          (th\<lparr>reg := cartCount s, th_message := message_of (th_kind th) (cartCount s), pc := L_header\<rparr>, s)
      | L_header \<Rightarrow> (th\<lparr>th_w := WriteHeader 200 (th_w th), pc := L_body\<rparr>, s)
      | L_body \<Rightarrow> (th\<lparr>th_w := Write (th_message th) (th_w th), pc := L_end\<rparr>, s)
      | L_end \<Rightarrow>
          (let s1 = elapse (th_dt th) s
           in (th\<lparr>pc := L_done\<rparr>, on_tel (span_End T (now s1) (th_span th)) s1))
      | L_done \<Rightarrow> (th, s))"

record 't config =
  shared :: "'t world"
  threads :: "thread list"

text \<open>One step of thread \<open>i\<close>; a number that names no thread leaves the configuration as it is.\<close>

definition sched_step :: "'t telemetry \<Rightarrow> nat \<Rightarrow> 't config \<Rightarrow> 't config" where
  "sched_step T i c =
     (if i < length (threads c)
      then (let (th, s) = step T (threads c ! i) (shared c)
            in \<lparr>shared = s, threads = (threads c)[i := th]\<rparr>)
      else c)"

fun exec :: "'t telemetry \<Rightarrow> nat list \<Rightarrow> 't config \<Rightarrow> 't config" where
  "exec T [] c = c"
| "exec T (i # sched) c = exec T sched (sched_step T i c)"

definition all_done :: "'t config \<Rightarrow> bool" where
  "all_done c = list_all (\<lambda>th. pc th = L_done) (threads c)"

section \<open>Start-up: \<^verbatim>\<open>main\<close> and the functions it calls\<close>

text \<open>
  What \<^verbatim>\<open>main\<close> calls outside the repository is a parameter: the gRPC client, the
  resource constructor, the two OTLP exporters and the HTTP server are fields of an
  environment that says what each call returns, and the meter is a record of the four
  instrument constructors over the meter's own state \<open>'m\<close>. The calls that take or
  return the connection are logged, in order.
\<close>

type_synonym conn = nat

type_synonym resource = "(string \<times> string) list"

datatype kind = Counter | Histogram | Gauge | ObservableGauge

record instrument =
  i_name :: string
  i_kind :: kind
  i_unit :: string
  i_description :: string

text \<open>A callback of an observable gauge maps \<^verbatim>\<open>memStats.Alloc\<close> to the value it observes.\<close>

type_synonym callback = "64 word \<Rightarrow> real"

record 'm Meter =
  Int64Counter :: "string \<Rightarrow> string \<Rightarrow> string \<Rightarrow> 'm \<Rightarrow> (error + instrument) \<times> 'm"
  Float64Histogram :: "string \<Rightarrow> string \<Rightarrow> string \<Rightarrow> 'm \<Rightarrow> (error + instrument) \<times> 'm"
  Int64Gauge :: "string \<Rightarrow> string \<Rightarrow> string \<Rightarrow> 'm \<Rightarrow> (error + instrument) \<times> 'm"
  Float64ObservableGauge ::
    "string \<Rightarrow> string \<Rightarrow> string \<Rightarrow> callback \<Rightarrow> 'm \<Rightarrow> (error + instrument) \<times> 'm"

record environment =
  grpc_NewClient :: "string \<Rightarrow> error + conn"
  resource_New :: "(string \<times> string) list \<Rightarrow> error + resource"
  otlptracegrpc_New :: "conn \<Rightarrow> error option"
  otlpmetricgrpc_New :: "conn \<Rightarrow> error option"
  http_ListenAndServe :: "string \<Rightarrow> error option"

datatype event =
    NewClient string
  | TraceExporter conn
  | MetricExporter conn
  | Go_collectMachineResourceMetrics
  | ListenAndServe string

datatype shutdown = TraceProvider_Shutdown | MeterProvider_Shutdown

text \<open>\<^verbatim>\<open>log.Fatal\<close> and \<^verbatim>\<open>log.Fatalf\<close> end the process; a function either does that or returns.\<close>

datatype 'a result = Exit error | Return 'a

definition initGrpcConn :: "environment \<Rightarrow> event list \<Rightarrow> (error + conn) \<times> event list" where
  "initGrpcConn E evs =
     (case grpc_NewClient E collectorURL of
        Inl err \<Rightarrow> (Inl (Errorf ''failed to create gRPC connection to collector'' err),
                    evs @ [NewClient collectorURL])
      | Inr conn \<Rightarrow> (Inr conn, evs @ [NewClient collectorURL]))"

definition initMeterProvider ::
  "environment \<Rightarrow> resource \<Rightarrow> conn \<Rightarrow> event list \<Rightarrow> (error + shutdown) \<times> event list" where
  "initMeterProvider E res conn evs =
     (case otlpmetricgrpc_New E conn of
        Some err \<Rightarrow> (Inl (Errorf ''failed to create metrics exporter'' err), evs @ [MetricExporter conn])
      | None \<Rightarrow> (Inr MeterProvider_Shutdown, evs @ [MetricExporter conn]))"

text \<open>
  \<^verbatim>\<open>initTraceProvider\<close> does not return the exporter's error: it calls \<^verbatim>\<open>log.Fatalf\<close>. The
  error it returns is always \<^verbatim>\<open>nil\<close>.
\<close>

definition initTraceProvider ::
  "environment \<Rightarrow> resource \<Rightarrow> conn \<Rightarrow> event list \<Rightarrow> (error + shutdown) result \<times> event list" where
  "initTraceProvider E res conn evs =
     (case otlptracegrpc_New E conn of
        Some err \<Rightarrow> (Exit (Errorf ''Failed to create exporter'' err), evs @ [TraceExporter conn])
      | None \<Rightarrow> (Return (Inr TraceProvider_Shutdown), evs @ [TraceExporter conn]))"

datatype outcome = Fatal error | Serving

record 'm process =
  events :: "event list"
  outcome :: outcome
  meter_state :: 'm

text \<open>
  \<^verbatim>\<open>main\<close>, up to the point where the server runs. \<^verbatim>\<open>http.ListenAndServe\<close> returns only
  with an error; \<open>None\<close> stands for a server that keeps serving. The two deferred
  shutdown functions run when \<^verbatim>\<open>main\<close> returns, which it never does: it serves forever or
  ends in \<^verbatim>\<open>log.Fatal\<close>, which exits without running deferred calls.
\<close>

definition main :: "environment \<Rightarrow> 'm Meter \<Rightarrow> 'm \<Rightarrow> 'm process" where
  "main E meter m0 =
     (case initGrpcConn E [] of
        (Inl err, l1) \<Rightarrow> \<lparr>events = l1, outcome = Fatal err, meter_state = m0\<rparr>
      | (Inr conn, l1) \<Rightarrow>
     (case resource_New E [(''service.name'', serviceName), (''library.language'', ''go'')] of
        Inl err \<Rightarrow> \<lparr>events = l1, outcome = Fatal err, meter_state = m0\<rparr>
      | Inr res \<Rightarrow>
     (case initTraceProvider E res conn l1 of
        (Exit err, l2) \<Rightarrow> \<lparr>events = l2, outcome = Fatal err, meter_state = m0\<rparr>
      | (Return (Inl err), l2) \<Rightarrow> \<lparr>events = l2, outcome = Fatal err, meter_state = m0\<rparr>
      | (Return (Inr shutdownTraceProvider), l2) \<Rightarrow>
     (case initMeterProvider E res conn l2 of
        (Inl err, l3) \<Rightarrow> \<lparr>events = l3, outcome = Fatal err, meter_state = m0\<rparr>
      | (Inr shutdownMeterProvider, l3) \<Rightarrow>
     (case Int64Counter meter ''api.request.error_counter'' ''Number of erroneous API calls.''
             ''{call}'' m0 of
        (Inl err, m1) \<Rightarrow> \<lparr>events = l3, outcome = Fatal err, meter_state = m1\<rparr>
      | (Inr counter, m1) \<Rightarrow>
     (case Float64Histogram meter ''api.request.latency_seconds''
             ''Records the latency of requests in seconds'' ''{s}'' m1 of
        (Inl err, m2) \<Rightarrow> \<lparr>events = l3, outcome = Fatal err, meter_state = m2\<rparr>
      | (Inr histogram, m2) \<Rightarrow>
     (let l4 = l3 @ [Go_collectMachineResourceMetrics] in
      case Int64Gauge meter ''api.cart.items'' ''Tracks the number of items in a user's cart''
             ''{item}'' m2 of
        (Inl err, m3) \<Rightarrow> \<lparr>events = l4, outcome = Fatal err, meter_state = m3\<rparr>
      | (Inr gauge, m3) \<Rightarrow>
     (let l5 = l4 @ [ListenAndServe '':8080''] in
      case http_ListenAndServe E '':8080'' of
        Some err \<Rightarrow> \<lparr>events = l5, outcome = Fatal (Errorf ''failed to start server'' err),
                     meter_state = m3\<rparr>
      | None \<Rightarrow> \<lparr>events = l5, outcome = Serving, meter_state = m3\<rparr>))))))))"

fun is_NewClient :: "event \<Rightarrow> bool" where
  "is_NewClient (NewClient target) = True"
| "is_NewClient e = False"

text \<open>
  Two environments to run \<^verbatim>\<open>main\<close> in: one where every call succeeds and the collector
  connection has the handle 7, and one where the trace exporter cannot be created.
\<close>

definition env_ok :: environment where
  "env_ok = \<lparr>grpc_NewClient = (\<lambda>target. Inr 7),
             resource_New = (\<lambda>attrs. Inr attrs),
             otlptracegrpc_New = (\<lambda>conn. None),
             otlpmetricgrpc_New = (\<lambda>conn. None),
             http_ListenAndServe = (\<lambda>addr. None)\<rparr>"

definition env_no_trace_exporter :: environment where
  "env_no_trace_exporter = env_ok\<lparr>otlptracegrpc_New := (\<lambda>conn. Some (Failure ''connection refused''))\<rparr>"

section \<open>The periodic sampler\<close>

definition Mb :: "64 word" where
  "Mb = 1048576"

text \<open>
  The callback that \<^verbatim>\<open>collectMachineResourceMetrics\<close> passes with the gauge:
  \<^verbatim>\<open>float64(memStats.Alloc) / float64(Mb)\<close>, here the exact quotient.
\<close>

definition allocatedMemoryInMB :: callback where
  "allocatedMemoryInMB alloc = real (unat alloc) / real (unat Mb)"

text \<open>
  The body of the loop, run once for every tick of the ticker: one call of
  \<^verbatim>\<open>meter.Float64ObservableGauge\<close>. The code drops both results of the call; the model
  returns them to say what the call answered.
\<close>

definition sampler_tick :: "'m Meter \<Rightarrow> 'm \<Rightarrow> (error + instrument) \<times> 'm" where
  "sampler_tick meter m =
     Float64ObservableGauge meter ''process.allocated_memory'' ''Allocated memory in MB.''
       ''{MB}'' allocatedMemoryInMB m"

text \<open>
  \<^verbatim>\<open>collectMachineResourceMetrics\<close> after the first \<open>n\<close> ticks: the answers of the \<open>n\<close>
  calls, the first tick first, and the meter's state. The loop has no exit.
\<close>

fun collectMachineResourceMetrics :: "'m Meter \<Rightarrow> nat \<Rightarrow> 'm \<Rightarrow> (error + instrument) list \<times> 'm" where
  "collectMachineResourceMetrics meter 0 m = ([], m)"
| "collectMachineResourceMetrics meter (Suc n) m =
     (let (r, m1) = sampler_tick meter m;
          (rs, m2) = collectMachineResourceMetrics meter n m1
      in (r # rs, m2))"

section \<open>The instrument registry of the specification\<close>

text \<open>
  Modelled from the spec: the registration of instruments of section 4.3, which is SDK
  code. An instrument is identified by name, kind, unit and description; registering
  fails with \<open>DuplicateInstrumentError\<close> if its name and unit are already registered.
\<close>

definition Register :: "instrument \<Rightarrow> instrument list \<Rightarrow> (error + instrument) \<times> instrument list" where
  "Register ins registered =
     (if list_ex (\<lambda>j. i_name j = i_name ins \<and> i_unit j = i_unit ins) registered
      then (Inl DuplicateInstrumentError, registered)
      else (Inr ins, registered @ [ins]))"

definition spec_meter :: "instrument list Meter" where
  "spec_meter = \<lparr>
     Int64Counter = (\<lambda>name description unit.
        Register \<lparr>i_name = name, i_kind = Counter, i_unit = unit, i_description = description\<rparr>),
     Float64Histogram = (\<lambda>name description unit.
        Register \<lparr>i_name = name, i_kind = Histogram, i_unit = unit, i_description = description\<rparr>),
     Int64Gauge = (\<lambda>name description unit.
        Register \<lparr>i_name = name, i_kind = Gauge, i_unit = unit, i_description = description\<rparr>),
     Float64ObservableGauge = (\<lambda>name description unit cb.
        Register \<lparr>i_name = name, i_kind = ObservableGauge, i_unit = unit, i_description = description\<rparr>)\<rparr>"

section \<open>Sequences of recorder calls, and traces\<close>

text \<open>
  Modelled from the spec: the calls of section 4.2 in a sequence, with the time that
  passes between them. The timestamps are readings of a clock that never goes backwards:
  time passes by a natural number of nanoseconds.
\<close>

datatype span_op =
    Start go_context string
  | SetAttrs nat "key_value list"
  | End nat
  | Wait nat

record recorder =
  clock :: nat
  recorded :: "span list"

fun apply_op :: "span_op \<Rightarrow> recorder \<Rightarrow> recorder" where
  "apply_op (Start c name) rc = rc\<lparr>recorded := snd (StartSpan (clock rc) c name (recorded rc))\<rparr>"
| "apply_op (SetAttrs i kvs) rc = rc\<lparr>recorded := SetAttributes i kvs (recorded rc)\<rparr>"
| "apply_op (End i) rc = rc\<lparr>recorded := EndSpan (clock rc) i (recorded rc)\<rparr>"
| "apply_op (Wait d) rc = rc\<lparr>clock := clock rc + d\<rparr>"

fun apply_ops :: "span_op list \<Rightarrow> recorder \<Rightarrow> recorder" where
  "apply_ops [] rc = rc"
| "apply_ops (x # xs) rc = apply_ops xs (apply_op x rc)"

text \<open>
  Modelled from the spec: a span has at most one parent and the spans form a tree per
  trace (section 3). The root of a span is found by following the parent links, at most
  \<open>k\<close> of them; a root span is a span without parent; the trace of a span is the set of
  spans with the same root.
\<close>

fun root_from :: "span list \<Rightarrow> nat \<Rightarrow> nat \<Rightarrow> nat" where
  "root_from sps 0 i = i"
| "root_from sps (Suc k) i =
     (if i < length sps
      then (case sp_parent (sps ! i) of None \<Rightarrow> i | Some p \<Rightarrow> root_from sps k p)
      else i)"

definition root_of :: "span list \<Rightarrow> nat \<Rightarrow> nat" where
  "root_of sps i = root_from sps (length sps) i"

text \<open>The root spans in the trace of span \<open>i\<close>.\<close>

definition roots_of_trace :: "span list \<Rightarrow> nat \<Rightarrow> nat list" where
  "roots_of_trace sps i =
     filter (\<lambda>j. sp_parent (sps ! j) = None \<and> root_of sps j = root_of sps i) [0..<length sps]"

text \<open>
  Two invariants of the recorder: the parent of a span was opened before it, and every
  timestamp is a past reading of the clock, the end of a span not before its start.
\<close>

definition parents_below :: "span list \<Rightarrow> bool" where
  "parents_below sps = (\<forall>i < length sps. \<forall>p. sp_parent (sps ! i) = Some p \<longrightarrow> p < i)"

definition stamps_ok :: "recorder \<Rightarrow> bool" where
  "stamps_ok rc =
     (\<forall>sp \<in> set (recorded rc).
        sp_start sp \<le> clock rc \<and> (\<forall>e. sp_end sp = Some e \<longrightarrow> sp_start sp \<le> e \<and> e \<le> clock rc))"

text \<open>A span that is closed, not before its start, and is the root of its trace.\<close>

definition closed_root :: "span \<Rightarrow> bool" where
  "closed_root sp = (sp_parent sp = None \<and> (\<exists>e. sp_end sp = Some e \<and> sp_start sp \<le> e))"

section \<open>Scenarios of the cart\<close>

text \<open>
  Three \<^verbatim>\<open>cartAddHandler\<close> invocations run concurrently under a schedule; once they have
  all returned, one \<^verbatim>\<open>cartRemoveHandler\<close> invocation runs.
\<close>

definition three_adds :: "nat list \<Rightarrow> sdk_state config" where
  "three_adds sched =
     exec sdk sched \<lparr>shared = init, threads = [spawn AddH 1, spawn AddH 1, spawn AddH 1]\<rparr>"

definition then_remove :: "sdk_state config \<Rightarrow> sdk_state config" where
  "then_remove c =
     exec sdk [0, 0, 0, 0, 0, 0, 0, 0, 0, 0, 0, 0] \<lparr>shared = shared c, threads = [spawn RemoveH 1]\<rparr>"

text \<open>Two \<^verbatim>\<open>cartAddHandler\<close> invocations run concurrently under a schedule.\<close>

definition two_adds :: "nat list \<Rightarrow> sdk_state config" where
  "two_adds sched = exec sdk sched \<lparr>shared = init, threads = [spawn AddH 1, spawn AddH 1]\<rparr>"

text \<open>
  A schedule in which the first two threads both read \<^verbatim>\<open>cartCount\<close> before either writes
  it; after that every thread runs to its end, one after the other.
\<close>

definition lost_update :: "nat list" where
  "lost_update =
     [0, 1,
      0, 0, 0, 0, 0, 0, 0, 0, 0, 0,
      1, 1, 1, 1, 1, 1, 1, 1, 1, 1,
      2, 2, 2, 2, 2, 2, 2, 2, 2, 2, 2]"

definition lost_update_of_two :: "nat list" where
  "lost_update_of_two =
     [0, 1,
      0, 0, 0, 0, 0, 0, 0, 0, 0, 0,
      1, 1, 1, 1, 1, 1, 1, 1, 1, 1]"

text \<open>The net sum of a sequence of calls: one up for every add, one down for every remove.\<close>

definition net :: "call list \<Rightarrow> int" where
  "net cs = int (length (filter is_CartAdd cs)) - int (length (filter is_CartRemove cs))"

text \<open>
  The example of section 8: a span named \<open>op\<close> is started, gets an attribute and is
  ended 10 time units later.
\<close>

definition span_scenario :: "span_op list" where
  "span_scenario = [Start None ''op'', SetAttrs 0 [(''status.ok'', AttrBool True)], Wait 10, End 0]"

section \<open>A thread that runs alone is the handler\<close>

lemma sched_step_single:
  "sched_step T 0 \<lparr>shared = s, threads = [th]\<rparr> =
     \<lparr>shared = snd (step T th s), threads = [fst (step T th s)]\<rparr>"
  by (simp add: sched_step_def split_def Let_def)

lemmas thread_defs =
  sched_step_single step_def spawn_def Let_def split_def on_tel_def elapse_def
  span_name_def attr_key_def message_of_def server_request_def all_done_def

lemma add_thread_alone:
  "shared (exec T [0, 0, 0, 0, 0, 0, 0, 0, 0, 0, 0] \<lparr>shared = s, threads = [spawn AddH dt]\<rparr>) =
     snd (cartAddHandler T dt new_writer (server_request ''/cart/add'') s)
   \<and> map pc (threads (exec T [0, 0, 0, 0, 0, 0, 0, 0, 0, 0, 0] \<lparr>shared = s, threads = [spawn AddH dt]\<rparr>)) =
     [L_done]
   \<and> map th_w (threads (exec T [0, 0, 0, 0, 0, 0, 0, 0, 0, 0, 0] \<lparr>shared = s, threads = [spawn AddH dt]\<rparr>)) =
     [fst (cartAddHandler T dt new_writer (server_request ''/cart/add'') s)]"
  by (simp add: thread_defs cartAddHandler_def)

lemma remove_thread_alone:
  "shared (exec T [0, 0, 0, 0, 0, 0, 0, 0, 0, 0, 0, 0] \<lparr>shared = s, threads = [spawn RemoveH dt]\<rparr>) =
     snd (cartRemoveHandler T dt new_writer (server_request ''/cart/remove'') s)
   \<and> map pc (threads (exec T [0, 0, 0, 0, 0, 0, 0, 0, 0, 0, 0, 0] \<lparr>shared = s, threads = [spawn RemoveH dt]\<rparr>)) =
     [L_done]
   \<and> map th_w (threads (exec T [0, 0, 0, 0, 0, 0, 0, 0, 0, 0, 0, 0] \<lparr>shared = s, threads = [spawn RemoveH dt]\<rparr>)) =
     [fst (cartRemoveHandler T dt new_writer (server_request ''/cart/remove'') s)]"
proof (cases "cartCount s = 0")
  case True
  then show ?thesis
    by (simp add: thread_defs cartRemoveHandler_def)
next
  case False
  then show ?thesis
    by (simp add: thread_defs cartRemoveHandler_def)
qed

section \<open>What a handler does to the cart counter and to the gauge\<close>

lemma cartAdd_cartCount:
  "cartCount (snd (cartAddHandler T dt w r s)) = cartCount s + 1"
  by (simp add: cartAddHandler_def Let_def split_def on_tel_def elapse_def)

lemma cartRemove_cartCount:
  "cartCount (snd (cartRemoveHandler T dt w r s)) =
     (if cartCount s \<noteq> 0 then cartCount s - 1 else cartCount s)"
  by (simp add: cartRemoveHandler_def Let_def split_def on_tel_def elapse_def)

lemma helloWorld_cartCount:
  "cartCount (snd (helloWorldHandler T rnd dt w r s)) = cartCount s"
  by (simp add: helloWorldHandler_def recordLatencyHistogram_def Let_def split_def on_tel_def elapse_def)

lemma cartAdd_itemGauge:
  "itemGauge (tel (snd (cartAddHandler sdk dt w r s))) = Some (cartCount s + 1)"
  by (simp add: cartAddHandler_def Let_def split_def on_tel_def elapse_def sdk_def Gauge_Record_def)

lemma cartRemove_itemGauge:
  "itemGauge (tel (snd (cartRemoveHandler sdk dt w r s))) =
     Some (if cartCount s \<noteq> 0 then cartCount s - 1 else cartCount s)"
  by (simp add: cartRemoveHandler_def Let_def split_def on_tel_def elapse_def sdk_def Gauge_Record_def)

lemma run_append: "run T (cs @ ds) s = run T ds (run T cs s)"
  by (induction cs arbitrary: s) simp_all

lemma run_replicate_CartAdd:
  "cartCount (run T (replicate n (CartAdd dt)) s) = cartCount s + of_nat n"
  by (induction n arbitrary: s) (simp_all add: cartAdd_cartCount)

subsection \<open>Signed reading of the counter away from the overflow\<close>

lemma sint_succ:
  fixes c :: int64
  assumes "0 \<le> sint c" and "sint c + 1 < 2 ^ 63"
  shows "sint (c + 1) = sint c + 1"
proof -
  have "sint (c + 1) = signed_take_bit 63 (sint c + 1)"
    by (simp add: sint_word_ariths)
  also have "\<dots> = sint c + 1"
    using assms by (intro signed_take_bit_int_eq_self) auto
  finally show ?thesis .
qed

lemma sint_pred:
  fixes c :: int64
  assumes "0 \<le> sint c" and "c \<noteq> 0"
  shows "sint (c - 1) = sint c - 1"
proof -
  have lt: "sint c < 2 ^ 63"
    using sint_lt [of c] by simp
  have "sint (c - 1) = signed_take_bit 63 (sint c - 1)"
    by (simp add: sint_word_ariths)
  also have "\<dots> = sint c - 1"
    using assms lt by (intro signed_take_bit_int_eq_self) auto
  finally show ?thesis .
qed

lemma sint_pos_of_nonzero:
  fixes c :: int64
  assumes "0 \<le> sint c" and "c \<noteq> 0"
  shows "0 < sint c"
proof -
  have "sint c \<noteq> 0"
    using assms(2) by (simp add: signed_eq_0_iff)
  with assms(1) show ?thesis by simp
qed

text \<open>
  One call keeps the counter between 0 and its old value plus one, as long as an add does
  not start from the largest \<^verbatim>\<open>int64\<close>.
\<close>

lemma handle_cartCount_bounds:
  assumes "0 \<le> sint (cartCount s)"
    and "is_CartAdd c \<Longrightarrow> sint (cartCount s) + 1 < 2 ^ 63"
  shows "0 \<le> sint (cartCount (snd (handle T c s)))
       \<and> sint (cartCount (snd (handle T c s))) \<le> sint (cartCount s) + (if is_CartAdd c then 1 else 0)"
proof (cases c)
  case (HelloWorld rnd dt)
  with assms show ?thesis by (simp add: helloWorld_cartCount)
next
  case (CartAdd dt)
  with assms show ?thesis by (simp add: cartAdd_cartCount sint_succ)
next
  case (CartRemove dt)
  with assms show ?thesis
    using sint_pos_of_nonzero [of "cartCount s"] by (simp add: cartRemove_cartCount sint_pred)
qed

lemma run_cartCount_bounds:
  assumes "0 \<le> sint (cartCount s)"
    and "sint (cartCount s) + int (length (filter is_CartAdd cs)) < 2 ^ 63"
  shows "0 \<le> sint (cartCount (run T cs s))
       \<and> sint (cartCount (run T cs s)) \<le> sint (cartCount s) + int (length (filter is_CartAdd cs))"
  using assms
proof (induction cs arbitrary: s)
  case Nil
  then show ?case by simp
next
  case (Cons c cs)
  let ?s' = "snd (handle T c s)"
  have step: "0 \<le> sint (cartCount ?s')
      \<and> sint (cartCount ?s') \<le> sint (cartCount s) + (if is_CartAdd c then 1 else 0)"
    using Cons.prems by (intro handle_cartCount_bounds) (auto split: if_splits)
  have "0 \<le> sint (cartCount (run T cs ?s'))
      \<and> sint (cartCount (run T cs ?s')) \<le> sint (cartCount ?s') + int (length (filter is_CartAdd cs))"
    using step Cons.prems by (intro Cons.IH) (auto split: if_splits)
  with step show ?case by (auto split: if_splits)
qed

section \<open>The claims about the cart\<close>

text \<open>
  C1, as stated, at a schedule: three adds run concurrently from a count of 0 and the
  first two both read the counter before either writes it. All three return, then the
  remove runs and returns: the count is 1 and the gauge holds 1, not 2.
\<close>

theorem three_adds_then_remove_lost_update:
  "all_done (three_adds lost_update)
   \<and> all_done (then_remove (three_adds lost_update))
   \<and> cartCount (shared (then_remove (three_adds lost_update))) = 1
   \<and> itemGauge (tel (shared (then_remove (three_adds lost_update)))) = Some 1"
  by code_simp

text \<open>
  C1, amended: when the three \<^verbatim>\<open>cartAddHandler\<close> calls and the \<^verbatim>\<open>cartRemoveHandler\<close> call
  run one after the other from a count of 0, each to its end before the next starts, the
  final count is 2 and the value the gauge holds is 2, however long each call takes.
\<close>

theorem three_adds_then_remove_sequential:
  "cartCount (run sdk [CartAdd d1, CartAdd d2, CartAdd d3, CartRemove d4] init) = 2
   \<and> itemGauge (tel (run sdk [CartAdd d1, CartAdd d2, CartAdd d3, CartRemove d4] init)) = Some 2"
  by (simp add: cartAdd_cartCount cartRemove_cartCount cartRemove_itemGauge init_def)

text \<open>
  C2, as stated, at a sequence: after \<open>2 ^ 63\<close> sequential \<^verbatim>\<open>cartAddHandler\<close> calls from the
  initial state the \<^verbatim>\<open>int64\<close> counter has wrapped around and is negative.
\<close>

theorem cartCount_negative_after_wrap:
  "sint (cartCount (run sdk (replicate (2 ^ 63) (CartAdd 0)) init)) < 0"
  by (simp add: run_replicate_CartAdd init_def)

text \<open>
  C2, amended: for every sequence of handler calls executed one after the other from the
  initial state that holds fewer than \<open>2 ^ 63\<close> calls of \<^verbatim>\<open>cartAddHandler\<close>, the counter is
  at least 0 at the end; and in any state where the counter is 0, \<^verbatim>\<open>cartRemoveHandler\<close>
  leaves it at 0 and records 0 to the gauge.
\<close>

theorem cartCount_nonnegative:
  assumes "length (filter is_CartAdd cs) < 2 ^ 63"
  shows "0 \<le> sint (cartCount (run sdk cs init))
       \<and> (cartCount s = 0 \<longrightarrow>
            cartCount (snd (cartRemoveHandler sdk dt w r s)) = 0
          \<and> itemGauge (tel (snd (cartRemoveHandler sdk dt w r s))) = Some 0)"
proof -
  have "int (length (filter is_CartAdd cs)) < 2 ^ 63"
    using assms by (metis of_nat_less_iff of_nat_numeral of_nat_power)
  then have "0 \<le> sint (cartCount (run sdk cs init))"
    using run_cartCount_bounds [of init cs sdk] by (simp add: init_def)
  then show ?thesis
    by (simp add: cartRemove_cartCount cartRemove_itemGauge)
qed

theorem cartCount_nonnegative_witness:
  "length (filter is_CartAdd [CartRemove 3, CartAdd 4, CartRemove 5, CartRemove 6]) < 2 ^ 63
   \<and> 0 \<le> sint (cartCount (run sdk [CartRemove 3, CartAdd 4, CartRemove 5, CartRemove 6] init))
   \<and> cartCount init = 0
   \<and> cartCount (snd (cartRemoveHandler sdk 7 new_writer (server_request ''/cart/remove'') init)) = 0
   \<and> itemGauge (tel (snd (cartRemoveHandler sdk 7 new_writer (server_request ''/cart/remove'') init))) = Some 0"
proof -
  have h: "length (filter is_CartAdd [CartRemove 3, CartAdd 4, CartRemove 5, CartRemove 6]) < 2 ^ 63"
    by simp
  have z: "cartCount init = 0"
    by (simp add: init_def)
  show ?thesis
    using h z cartCount_nonnegative [OF h, of init 7 new_writer "server_request ''/cart/remove''"]
    by blast
qed

text \<open>
  C5, as stated, at a schedule: two threads each perform one \<^verbatim>\<open>cartAddHandler\<close> call from a
  count of 0, and both read the counter before either writes it. Both return; the net
  sum of the two operations is 2 and the final count is 1.
\<close>

theorem two_adds_lost_update:
  "all_done (two_adds lost_update_of_two)
   \<and> net [CartAdd 1, CartAdd 1] = 2
   \<and> cartCount (shared (two_adds lost_update_of_two)) = 1"
  by (simp add: net_def) code_simp

text \<open>
  C5, amended: when the calls run one after the other from the initial state, there are
  fewer than \<open>2 ^ 63\<close> adds, and every remove comes when more adds than removes have
  run before it, the final count is the net sum of the operations.
\<close>

theorem sequential_net_sum:
  assumes "length (filter is_CartAdd cs) < 2 ^ 63"
    and "\<forall>n < length cs. is_CartRemove (cs ! n) \<longrightarrow> 0 < net (take n cs)"
  shows "sint (cartCount (run sdk cs init)) = net cs"
  using assms
proof (induction cs rule: rev_induct)
  case Nil
  then show ?case by (simp add: init_def net_def)
next
  case (snoc c cs)
  let ?s = "run sdk cs init"
  have adds: "int (length (filter is_CartAdd (cs @ [c]))) < 2 ^ 63"
    using snoc.prems(1) by (metis of_nat_less_iff of_nat_numeral of_nat_power)
  have "\<forall>n < length cs. is_CartRemove (cs ! n) \<longrightarrow> 0 < net (take n cs)"
  proof (intro allI impI)
    fix n assume n: "n < length cs" and "is_CartRemove (cs ! n)"
    with snoc.prems(2) [rule_format, of n] show "0 < net (take n cs)"
      by (simp add: nth_append)
  qed
  moreover have "length (filter is_CartAdd cs) < 2 ^ 63"
    using snoc.prems(1) by (auto split: if_splits)
  ultimately have IH: "sint (cartCount ?s) = net cs"
    using snoc.IH by blast
  have bounds: "0 \<le> sint (cartCount ?s)
      \<and> sint (cartCount ?s) \<le> int (length (filter is_CartAdd cs))"
    using run_cartCount_bounds [of init cs sdk] adds by (simp add: init_def split: if_splits)
  show ?case
  proof (cases c)
    case (HelloWorld rnd dt)
    with IH show ?thesis
      by (simp add: run_append helloWorld_cartCount net_def)
  next
    case (CartAdd dt)
    have "sint (cartCount ?s) + 1 < 2 ^ 63"
      using bounds adds CartAdd by simp
    with bounds IH CartAdd show ?thesis
      by (simp add: run_append cartAdd_cartCount sint_succ net_def)
  next
    case (CartRemove dt)
    have "0 < net (take (length cs) (cs @ [c]))"
      using snoc.prems(2) [rule_format, of "length cs"] CartRemove by simp
    then have pos: "0 < sint (cartCount ?s)"
      using IH by simp
    then have "cartCount ?s \<noteq> 0"
      by auto
    with bounds IH CartRemove show ?thesis
      by (simp add: run_append cartRemove_cartCount sint_pred net_def)
  qed
qed

theorem sequential_net_sum_witness:
  "length (filter is_CartAdd [CartAdd 1, CartAdd 2, CartRemove 3, HelloWorld 0 4, CartAdd 5]) < 2 ^ 63
   \<and> is_CartRemove ([CartAdd 1, CartAdd 2, CartRemove 3, HelloWorld 0 4, CartAdd 5] ! 2)
   \<and> 0 < net (take 2 [CartAdd 1, CartAdd 2, CartRemove 3, HelloWorld 0 4, CartAdd 5])
   \<and> sint (cartCount (run sdk [CartAdd 1, CartAdd 2, CartRemove 3, HelloWorld 0 4, CartAdd 5] init)) = 2
   \<and> net [CartAdd 1, CartAdd 2, CartRemove 3, HelloWorld 0 4, CartAdd 5] = 2"
proof -
  let ?cs = "[CartAdd 1, CartAdd 2, CartRemove 3, HelloWorld 0 4, CartAdd 5]"
  have h1: "length (filter is_CartAdd ?cs) < 2 ^ 63"
    by simp
  have r: "is_CartRemove (?cs ! 2)" and p: "0 < net (take 2 ?cs)" and n: "net ?cs = 2"
    by (simp_all add: net_def)
  have h2: "\<forall>n < length ?cs. is_CartRemove (?cs ! n) \<longrightarrow> 0 < net (take n ?cs)"
    by (simp add: net_def less_Suc_eq all_conj_distrib)
  show ?thesis
    using h1 r p n sequential_net_sum [OF h1 h2] by simp
qed

section \<open>What the handlers do to the telemetry of the specification\<close>

lemmas handler_defs =
  Let_def split_def on_tel_def elapse_def recordLatencyHistogram_def

lemmas sdk_defs =
  sdk_def StartSpan_def SetAttributes_def EndSpan_def Counter_Add_def Histogram_Record_def
  Gauge_Record_def

lemma cartAdd_response:
  "fst (cartAddHandler T dt w r s) =
     Write (''Item added to cart. Number of items in cart: '' @ show_int64 (cartCount s + 1) @ ''.'')
       (WriteHeader 200 w)"
  by (simp add: cartAddHandler_def handler_defs)

lemma cartRemove_response:
  "fst (cartRemoveHandler T dt w r s) =
     Write (''Item removed from cart. Number of items in cart: ''
              @ show_int64 (if cartCount s \<noteq> 0 then cartCount s - 1 else cartCount s) @ ''.'')
       (WriteHeader 200 w)"
  by (simp add: cartRemoveHandler_def handler_defs)

lemma helloWorld_response:
  "fst (helloWorldHandler T rnd dt w r s) =
     (if rnd < 0.5 then http_Error w ''Internal Server Error'' 500
      else Write ''Hello, World!'' (WriteHeader 200 w))"
  by (simp add: helloWorldHandler_def handler_defs)

lemma response_independent:
  "cartCount s = cartCount s' \<Longrightarrow> fst (handle T c s) = fst (handle T' c s')"
  by (cases c) (simp_all add: cartAdd_response cartRemove_response helloWorld_response)

lemma response_status:
  "w_status (fst (handle T c s)) =
     Some (case c of HelloWorld rnd dt \<Rightarrow> if rnd < 1 / 2 then 500 else 200
                   | CartAdd dt \<Rightarrow> 200
                   | CartRemove dt \<Rightarrow> 200)"
  by (cases c) (simp_all add: cartAdd_response cartRemove_response helloWorld_response
      Write_def WriteHeader_def http_Error_def new_writer_def Let_def)

lemma helloWorld_errorCounter:
  "errorCounter (tel (snd (helloWorldHandler sdk rnd dt w r s))) =
     errorCounter (tel s) + (if rnd < 0.5 then 1 else 0)"
  by (simp add: helloWorldHandler_def handler_defs sdk_defs)

lemma helloWorld_latencyHistogram:
  "latencyHistogram (tel (snd (helloWorldHandler sdk rnd dt w r s))) =
     latencyHistogram (tel s) @ [real dt / 1000000000]"
  by (simp add: helloWorldHandler_def handler_defs sdk_defs)

lemma helloWorld_spans:
  "spans (tel (snd (helloWorldHandler sdk rnd dt w r s))) =
     spans (tel s) @
     [\<lparr>sp_name = ''helloWorldHandler'', sp_start = now s, sp_end = Some (now s + dt),
       sp_attrs = (if rnd < 0.5
                   then [(''helloWorldHandler.error'', AttrBool True), (''http.status'', AttrInt64 500)]
                   else [(''helloWorldHandler.error'', AttrBool False), (''http.status'', AttrInt64 200)]),
       sp_parent = (case Context r of None \<Rightarrow> None
                    | Some p \<Rightarrow> if p < length (spans (tel s)) then Some p else None)\<rparr>]"
  by (simp add: helloWorldHandler_def handler_defs sdk_defs)

lemma cartAdd_spans:
  "spans (tel (snd (cartAddHandler sdk dt w r s))) =
     spans (tel s) @
     [\<lparr>sp_name = ''cartAddHandler'', sp_start = now s, sp_end = Some (now s + dt),
       sp_attrs = [(''cartAddHandler.cartCount'', AttrInt64 (cartCount s + 1))],
       sp_parent = (case Context r of None \<Rightarrow> None
                    | Some p \<Rightarrow> if p < length (spans (tel s)) then Some p else None)\<rparr>]"
  by (simp add: cartAddHandler_def handler_defs sdk_defs cong: option.case_cong)

lemma cartRemove_spans:
  "spans (tel (snd (cartRemoveHandler sdk dt w r s))) =
     spans (tel s) @
     [\<lparr>sp_name = ''cartRemoveHandler'', sp_start = now s, sp_end = Some (now s + dt),
       sp_attrs = [(''cartRemoveHandler.cartCount'',
                    AttrInt64 (if cartCount s \<noteq> 0 then cartCount s - 1 else cartCount s))],
       sp_parent = (case Context r of None \<Rightarrow> None
                    | Some p \<Rightarrow> if p < length (spans (tel s)) then Some p else None)\<rparr>]"
  by (simp add: cartRemoveHandler_def handler_defs sdk_defs cong: option.case_cong)

lemma cartAdd_errorCounter:
  "errorCounter (tel (snd (cartAddHandler sdk dt w r s))) = errorCounter (tel s)"
  by (simp add: cartAddHandler_def handler_defs sdk_defs)

lemma cartRemove_errorCounter:
  "errorCounter (tel (snd (cartRemoveHandler sdk dt w r s))) = errorCounter (tel s)"
  by (simp add: cartRemoveHandler_def handler_defs sdk_defs)

lemma handle_errorCounter_mono:
  "errorCounter (tel s) \<le> errorCounter (tel (snd (handle sdk c s)))"
  by (cases c) (simp_all add: helloWorld_errorCounter cartAdd_errorCounter cartRemove_errorCounter)

lemma run_errorCounter_mono:
  "errorCounter (tel s) \<le> errorCounter (tel (run sdk cs s))"
proof (induction cs arbitrary: s)
  case Nil
  show ?case by simp
next
  case (Cons c cs)
  have "errorCounter (tel s) \<le> errorCounter (tel (snd (handle sdk c s)))"
    by (rule handle_errorCounter_mono)
  also have "\<dots> \<le> errorCounter (tel (run sdk cs (snd (handle sdk c s))))"
    by (rule Cons.IH)
  finally show ?case by simp
qed

section \<open>The registry and the sampler\<close>

lemma Register_registers:
  "list_ex (\<lambda>j. i_name j = i_name ins \<and> i_unit j = i_unit ins) (snd (Register ins registered))"
  by (simp add: Register_def list_ex_iff)

lemma Register_duplicate:
  "list_ex (\<lambda>j. i_name j = i_name ins \<and> i_unit j = i_unit ins) registered \<Longrightarrow>
   Register ins registered = (Inl DuplicateInstrumentError, registered)"
  by (simp add: Register_def)

lemma sampler_tick_spec:
  "sampler_tick spec_meter registered =
     Register \<lparr>i_name = ''process.allocated_memory'', i_kind = ObservableGauge, i_unit = ''{MB}'',
               i_description = ''Allocated memory in MB.''\<rparr> registered"
  by (simp add: sampler_tick_def spec_meter_def)

lemma collect_registered:
  assumes "list_ex (\<lambda>j. i_name j = ''process.allocated_memory'' \<and> i_unit j = ''{MB}'') registered"
  shows "collectMachineResourceMetrics spec_meter n registered =
           (replicate n (Inl DuplicateInstrumentError), registered)"
proof (induction n)
  case 0
  show ?case by simp
next
  case (Suc n)
  have "sampler_tick spec_meter registered = (Inl DuplicateInstrumentError, registered)"
    unfolding sampler_tick_spec using assms by (intro Register_duplicate) simp
  with Suc show ?case by simp
qed

lemma collect_after_first:
  "fst (collectMachineResourceMetrics spec_meter (Suc n) registered) =
     fst (sampler_tick spec_meter registered) # replicate n (Inl DuplicateInstrumentError)"
proof -
  have "list_ex (\<lambda>j. i_name j = ''process.allocated_memory'' \<and> i_unit j = ''{MB}'')
          (snd (sampler_tick spec_meter registered))"
    unfolding sampler_tick_spec
    using Register_registers [of "\<lparr>i_name = ''process.allocated_memory'', i_kind = ObservableGauge,
               i_unit = ''{MB}'', i_description = ''Allocated memory in MB.''\<rparr>" registered]
    by simp
  from collect_registered [OF this, of n] show ?thesis
    by (simp add: split_def Let_def)
qed

text \<open>
  C3: in the registry of the specification, a second registration with the name and unit
  of an earlier one fails with \<open>DuplicateInstrumentError\<close>, whatever the kinds and the
  descriptions; so the call that \<^verbatim>\<open>collectMachineResourceMetrics\<close> makes on every tick,
  always with the name \<^verbatim>\<open>process.allocated_memory\<close> and the unit \<^verbatim>\<open>{MB}\<close>, answers with
  that error on every tick after the first.
\<close>

theorem duplicate_registration_fails:
  "(i_name ins2 = i_name ins1 \<and> i_unit ins2 = i_unit ins1 \<longrightarrow>
      fst (Register ins2 (snd (Register ins1 registered))) = Inl DuplicateInstrumentError)
   \<and> (0 < i \<and> i < n \<longrightarrow>
      fst (collectMachineResourceMetrics spec_meter n registered) ! i = Inl DuplicateInstrumentError)"
proof (intro conjI impI)
  assume eq: "i_name ins2 = i_name ins1 \<and> i_unit ins2 = i_unit ins1"
  have "list_ex (\<lambda>j. i_name j = i_name ins2 \<and> i_unit j = i_unit ins2) (snd (Register ins1 registered))"
    using Register_registers [of ins1 registered] eq by simp
  from Register_duplicate [OF this]
  show "fst (Register ins2 (snd (Register ins1 registered))) = Inl DuplicateInstrumentError"
    by simp
next
  assume i: "0 < i \<and> i < n"
  then obtain k where n: "n = Suc k" by (cases n) auto
  from i n show "fst (collectMachineResourceMetrics spec_meter n registered) ! i = Inl DuplicateInstrumentError"
    by (simp only: n collect_after_first) (cases i; simp)
qed

theorem duplicate_registration_fails_witness:
  "i_name \<lparr>i_name = ''a'', i_kind = Gauge, i_unit = ''{x}'', i_description = ''second''\<rparr> =
     i_name \<lparr>i_name = ''a'', i_kind = Counter, i_unit = ''{x}'', i_description = ''first''\<rparr>
   \<and> i_unit \<lparr>i_name = ''a'', i_kind = Gauge, i_unit = ''{x}'', i_description = ''second''\<rparr> =
     i_unit \<lparr>i_name = ''a'', i_kind = Counter, i_unit = ''{x}'', i_description = ''first''\<rparr>
   \<and> fst (Register \<lparr>i_name = ''a'', i_kind = Gauge, i_unit = ''{x}'', i_description = ''second''\<rparr>
        (snd (Register \<lparr>i_name = ''a'', i_kind = Counter, i_unit = ''{x}'', i_description = ''first''\<rparr> [])))
       = Inl DuplicateInstrumentError
   \<and> (0 :: nat) < 2 \<and> (2 :: nat) < 4
   \<and> fst (collectMachineResourceMetrics spec_meter 4 []) ! 2 = Inl DuplicateInstrumentError"
proof -
  let ?a = "\<lparr>i_name = ''a'', i_kind = Counter, i_unit = ''{x}'', i_description = ''first''\<rparr>"
  let ?b = "\<lparr>i_name = ''a'', i_kind = Gauge, i_unit = ''{x}'', i_description = ''second''\<rparr>"
  have h1: "i_name ?b = i_name ?a \<and> i_unit ?b = i_unit ?a"
    by simp
  have h2: "(0 :: nat) < 2 \<and> (2 :: nat) < 4"
    by simp
  show ?thesis
    using h1 h2 duplicate_registration_fails [of ?b ?a "[]" 2 4] by blast
qed

section \<open>The error counter\<close>

text \<open>
  C6: \<open>Counter.Add\<close> with a negative delta fails with \<open>InvalidArgument\<close> and leaves the
  stored value as it was; every delta that is not negative is accepted, among them the 1
  that \<^verbatim>\<open>helloWorldHandler\<close> adds; no call makes the stored value smaller, and over any
  sequence of requests the error counter never decreases.
\<close>

theorem counter_add_contract:
  "(sint delta < 0 \<longrightarrow> Counter_Add delta v = (Some InvalidArgument, v))
   \<and> (0 \<le> sint delta \<longrightarrow> fst (Counter_Add delta v) = None)
   \<and> v \<le> snd (Counter_Add delta v)
   \<and> Counter_Add 1 v = (None, v + 1)
   \<and> errorCounter (tel s) \<le> errorCounter (tel (run sdk cs s))"
  by (simp add: Counter_Add_def run_errorCounter_mono)

theorem counter_add_contract_witness:
  "sint (- 3 :: int64) < 0 \<and> Counter_Add (- 3) 5 = (Some InvalidArgument, 5)
   \<and> 0 \<le> sint (2 :: int64) \<and> fst (Counter_Add 2 5) = None"
proof -
  have h1: "sint (- 3 :: int64) < 0"
    by simp
  have h2: "0 \<le> sint (2 :: int64)"
    by simp
  show ?thesis
    using h1 h2 counter_add_contract [of "- 3" 5 init "[]"] counter_add_contract [of 2 5 init "[]"]
    by blast
qed

section \<open>Start-up\<close>

lemmas startup_defs =
  main_def initGrpcConn_def initTraceProvider_def initMeterProvider_def Let_def

lemma main_events_cases:
  "events (main E meter m0) = [NewClient collectorURL]
   \<or> (\<exists>conn. grpc_NewClient E collectorURL = Inr conn
        \<and> (events (main E meter m0) = [NewClient collectorURL, TraceExporter conn]
           \<or> events (main E meter m0) = [NewClient collectorURL, TraceExporter conn, MetricExporter conn]
           \<or> events (main E meter m0) =
               [NewClient collectorURL, TraceExporter conn, MetricExporter conn,
                Go_collectMachineResourceMetrics]
           \<or> events (main E meter m0) =
               [NewClient collectorURL, TraceExporter conn, MetricExporter conn,
                Go_collectMachineResourceMetrics, ListenAndServe '':8080'']))"
  by (auto simp add: startup_defs
      split: sum.splits prod.splits option.splits result.splits)

lemma main_Serving_events:
  "outcome (main E meter m0) = Serving \<Longrightarrow>
   \<exists>conn. grpc_NewClient E collectorURL = Inr conn
        \<and> events (main E meter m0) =
            [NewClient collectorURL, TraceExporter conn, MetricExporter conn,
             Go_collectMachineResourceMetrics, ListenAndServe '':8080'']"
  by (auto simp add: startup_defs
      split: sum.splits prod.splits option.splits result.splits)

lemma wiring_failure_fatal:
  "(\<exists>e. grpc_NewClient E collectorURL = Inl e)
   \<or> (\<exists>e. resource_New E [(''service.name'', serviceName), (''library.language'', ''go'')] = Inl e)
   \<or> (\<exists>conn e. grpc_NewClient E collectorURL = Inr conn \<and> otlptracegrpc_New E conn = Some e)
   \<or> (\<exists>conn e. grpc_NewClient E collectorURL = Inr conn \<and> otlpmetricgrpc_New E conn = Some e)
   \<or> (\<exists>e. fst (Int64Counter meter ''api.request.error_counter'' ''Number of erroneous API calls.''
                ''{call}'' m0) = Inl e)
   \<or> (\<exists>e. fst (Float64Histogram meter ''api.request.latency_seconds''
                ''Records the latency of requests in seconds'' ''{s}''
                (snd (Int64Counter meter ''api.request.error_counter''
                        ''Number of erroneous API calls.'' ''{call}'' m0))) = Inl e)
   \<or> (\<exists>e. fst (Int64Gauge meter ''api.cart.items'' ''Tracks the number of items in a user's cart''
                ''{item}''
                (snd (Float64Histogram meter ''api.request.latency_seconds''
                        ''Records the latency of requests in seconds'' ''{s}''
                        (snd (Int64Counter meter ''api.request.error_counter''
                                ''Number of erroneous API calls.'' ''{call}'' m0))))) = Inl e)
  \<Longrightarrow> \<exists>err. outcome (main E meter m0) = Fatal err"
  by (auto simp add: startup_defs
      split: sum.splits prod.splits option.splits result.splits)

text \<open>
  C7: \<^verbatim>\<open>main\<close> creates the gRPC connection to the collector exactly once, through
  \<^verbatim>\<open>initGrpcConn\<close>; a connection passed to the trace exporter or to the metric exporter
  is the one that call returned; and when start-up gets as far as serving, each of the
  two exporters has been created exactly once, with that connection.
\<close>

theorem one_connection_for_both_exporters:
  "filter is_NewClient (events (main E meter m0)) = [NewClient collectorURL]
   \<and> (\<forall>c. TraceExporter c \<in> set (events (main E meter m0))
            \<or> MetricExporter c \<in> set (events (main E meter m0))
          \<longrightarrow> grpc_NewClient E collectorURL = Inr c)
   \<and> (outcome (main E meter m0) = Serving \<longrightarrow>
         (\<exists>c. grpc_NewClient E collectorURL = Inr c
            \<and> filter (\<lambda>e. e = TraceExporter c) (events (main E meter m0)) = [TraceExporter c]
            \<and> filter (\<lambda>e. e = MetricExporter c) (events (main E meter m0)) = [MetricExporter c]))"
proof (intro conjI allI impI)
  show "filter is_NewClient (events (main E meter m0)) = [NewClient collectorURL]"
    using main_events_cases [of E meter m0] by auto
next
  fix c
  assume "TraceExporter c \<in> set (events (main E meter m0))
          \<or> MetricExporter c \<in> set (events (main E meter m0))"
  then show "grpc_NewClient E collectorURL = Inr c"
    using main_events_cases [of E meter m0] by auto
next
  assume "outcome (main E meter m0) = Serving"
  from main_Serving_events [OF this]
  show "\<exists>c. grpc_NewClient E collectorURL = Inr c
            \<and> filter (\<lambda>e. e = TraceExporter c) (events (main E meter m0)) = [TraceExporter c]
            \<and> filter (\<lambda>e. e = MetricExporter c) (events (main E meter m0)) = [MetricExporter c]"
    by auto
qed

theorem one_connection_for_both_exporters_witness:
  "outcome (main env_ok spec_meter []) = Serving
   \<and> TraceExporter 7 \<in> set (events (main env_ok spec_meter []))
   \<and> grpc_NewClient env_ok collectorURL = Inr 7
   \<and> filter (\<lambda>e. e = TraceExporter 7) (events (main env_ok spec_meter [])) = [TraceExporter 7]
   \<and> filter (\<lambda>e. e = MetricExporter 7) (events (main env_ok spec_meter [])) = [MetricExporter 7]"
proof -
  have h1: "outcome (main env_ok spec_meter []) = Serving"
    by code_simp
  have h2: "TraceExporter 7 \<in> set (events (main env_ok spec_meter []))"
    by code_simp
  from one_connection_for_both_exporters [of env_ok spec_meter "[]"] h2
  have c: "grpc_NewClient env_ok collectorURL = Inr 7"
    by blast
  from one_connection_for_both_exporters [of env_ok spec_meter "[]"] h1
  obtain c' where c': "grpc_NewClient env_ok collectorURL = Inr c'"
      "filter (\<lambda>e. e = TraceExporter c') (events (main env_ok spec_meter [])) = [TraceExporter c']"
      "filter (\<lambda>e. e = MetricExporter c') (events (main env_ok spec_meter [])) = [MetricExporter c']"
    by blast
  from c c'(1) have "c' = 7"
    by simp
  with h1 h2 c c'(2,3) show ?thesis
    by simp
qed

text \<open>
  C8: when the creation of the gRPC connection, of the resource, of the trace exporter,
  of the metric exporter, of the counter, of the histogram or of the gauge returns an
  error, \<^verbatim>\<open>main\<close> ends in \<^verbatim>\<open>log.Fatal\<close>. In the handlers, whatever the telemetry calls do
  and whatever state the telemetry is in, the response is the same: it depends on the
  call and on the cart counter only, and its status is 200, or 500 when
  \<^verbatim>\<open>helloWorldHandler\<close> draws a number below one half.
\<close>

theorem startup_fatal_serving_unaffected:
  "((\<exists>e. grpc_NewClient E collectorURL = Inl e)
     \<or> (\<exists>e. resource_New E [(''service.name'', serviceName), (''library.language'', ''go'')] = Inl e)
     \<or> (\<exists>conn e. grpc_NewClient E collectorURL = Inr conn \<and> otlptracegrpc_New E conn = Some e)
     \<or> (\<exists>conn e. grpc_NewClient E collectorURL = Inr conn \<and> otlpmetricgrpc_New E conn = Some e)
     \<or> (\<exists>e. fst (Int64Counter meter ''api.request.error_counter'' ''Number of erroneous API calls.''
                  ''{call}'' m0) = Inl e)
     \<or> (\<exists>e. fst (Float64Histogram meter ''api.request.latency_seconds''
                  ''Records the latency of requests in seconds'' ''{s}''
                  (snd (Int64Counter meter ''api.request.error_counter''
                          ''Number of erroneous API calls.'' ''{call}'' m0))) = Inl e)
     \<or> (\<exists>e. fst (Int64Gauge meter ''api.cart.items'' ''Tracks the number of items in a user's cart''
                  ''{item}''
                  (snd (Float64Histogram meter ''api.request.latency_seconds''
                          ''Records the latency of requests in seconds'' ''{s}''
                          (snd (Int64Counter meter ''api.request.error_counter''
                                  ''Number of erroneous API calls.'' ''{call}'' m0))))) = Inl e)
    \<longrightarrow> (\<exists>err. outcome (main E meter m0) = Fatal err))
   \<and> (cartCount s = cartCount s' \<longrightarrow> fst (handle T c s) = fst (handle T' c s'))
   \<and> w_status (fst (handle T c s)) =
       Some (case c of HelloWorld rnd dt \<Rightarrow> if rnd < 1 / 2 then 500 else 200
                     | CartAdd dt \<Rightarrow> 200
                     | CartRemove dt \<Rightarrow> 200)"
  using wiring_failure_fatal [of E meter m0] response_independent [of s s' T c T']
    response_status [of T c s]
  by blast

theorem startup_fatal_serving_unaffected_witness:
  "grpc_NewClient env_no_trace_exporter collectorURL = Inr 7
   \<and> otlptracegrpc_New env_no_trace_exporter 7 = Some (Failure ''connection refused'')
   \<and> outcome (main env_no_trace_exporter spec_meter []) \<noteq> Serving
   \<and> cartCount init = cartCount (init\<lparr>tel := sdk_init\<lparr>errorCounter := 9\<rparr>\<rparr>)
   \<and> fst (handle sdk (CartAdd 1) init) =
       fst (handle sdk (CartAdd 1) (init\<lparr>tel := sdk_init\<lparr>errorCounter := 9\<rparr>\<rparr>))"
proof -
  have h1: "grpc_NewClient env_no_trace_exporter collectorURL = Inr 7"
    by (simp add: env_no_trace_exporter_def env_ok_def)
  have h2: "otlptracegrpc_New env_no_trace_exporter 7 = Some (Failure ''connection refused'')"
    by (simp add: env_no_trace_exporter_def env_ok_def)
  have h3: "cartCount init = cartCount (init\<lparr>tel := sdk_init\<lparr>errorCounter := 9\<rparr>\<rparr>)"
    by simp
  from h1 h2
    startup_fatal_serving_unaffected [of env_no_trace_exporter spec_meter "[]" init
      "init\<lparr>tel := sdk_init\<lparr>errorCounter := 9\<rparr>\<rparr>" sdk "CartAdd 1" sdk]
  have "\<exists>err. outcome (main env_no_trace_exporter spec_meter []) = Fatal err"
    by blast
  then have f: "outcome (main env_no_trace_exporter spec_meter []) \<noteq> Serving"
    by auto
  from h3
    startup_fatal_serving_unaffected [of env_no_trace_exporter spec_meter "[]" init
      "init\<lparr>tel := sdk_init\<lparr>errorCounter := 9\<rparr>\<rparr>" sdk "CartAdd 1" sdk]
  have "fst (handle sdk (CartAdd 1) init) =
       fst (handle sdk (CartAdd 1) (init\<lparr>tel := sdk_init\<lparr>errorCounter := 9\<rparr>\<rparr>))"
    by blast
  with h1 h2 h3 f show ?thesis
    by blast
qed

section \<open>\<^verbatim>\<open>helloWorldHandler\<close>\<close>

text \<open>
  C10: a request served by \<^verbatim>\<open>helloWorldHandler\<close> ends in one of two ways. Either the draw
  is below one half: the status is 500, the error counter is one higher and the span of
  the handler has \<^verbatim>\<open>helloWorldHandler.error\<close> set to true. Or the draw is at least one
  half: the status is 200, the body is \<^verbatim>\<open>Hello, World!\<close>, the error counter is as before
  and the attribute is false. Either way the histogram has exactly one observation more,
  the time the handler took in seconds.
\<close>

theorem helloWorld_outcomes:
  "(rnd < 1 / 2
      \<and> w_status (fst (handle sdk (HelloWorld rnd dt) s)) = Some 500
      \<and> errorCounter (tel (snd (handle sdk (HelloWorld rnd dt) s))) = errorCounter (tel s) + 1
      \<and> map_of (sp_attrs (last (spans (tel (snd (handle sdk (HelloWorld rnd dt) s))))))
            ''helloWorldHandler.error'' = Some (AttrBool True)
    \<or> 1 / 2 \<le> rnd
      \<and> w_status (fst (handle sdk (HelloWorld rnd dt) s)) = Some 200
      \<and> w_body (fst (handle sdk (HelloWorld rnd dt) s)) = ''Hello, World!''
      \<and> errorCounter (tel (snd (handle sdk (HelloWorld rnd dt) s))) = errorCounter (tel s)
      \<and> map_of (sp_attrs (last (spans (tel (snd (handle sdk (HelloWorld rnd dt) s))))))
            ''helloWorldHandler.error'' = Some (AttrBool False))
   \<and> sp_name (last (spans (tel (snd (handle sdk (HelloWorld rnd dt) s))))) = ''helloWorldHandler''
   \<and> latencyHistogram (tel (snd (handle sdk (HelloWorld rnd dt) s))) =
       latencyHistogram (tel s) @ [real dt / 1000000000]"
proof (cases "rnd < 1 / 2")
  case True
  then show ?thesis
    by (simp add: helloWorld_response helloWorld_errorCounter helloWorld_spans
          helloWorld_latencyHistogram http_Error_def Write_def WriteHeader_def new_writer_def Let_def)
next
  case False
  then show ?thesis
    by (simp add: helloWorld_response helloWorld_errorCounter helloWorld_spans
          helloWorld_latencyHistogram http_Error_def Write_def WriteHeader_def new_writer_def Let_def)
qed

theorem helloWorld_outcomes_witness:
  "(1 / 4 :: real) < 1 / 2
   \<and> w_status (fst (handle sdk (HelloWorld (1 / 4) 3) init)) = Some 500
   \<and> errorCounter (tel (snd (handle sdk (HelloWorld (1 / 4) 3) init))) = errorCounter (tel init) + 1
   \<and> 1 / 2 \<le> (3 / 4 :: real)
   \<and> w_status (fst (handle sdk (HelloWorld (3 / 4) 3) init)) = Some 200
   \<and> w_body (fst (handle sdk (HelloWorld (3 / 4) 3) init)) = ''Hello, World!''
   \<and> errorCounter (tel (snd (handle sdk (HelloWorld (3 / 4) 3) init))) = errorCounter (tel init)"
proof -
  have h1: "(1 / 4 :: real) < 1 / 2" and n1: "\<not> 1 / 2 \<le> (1 / 4 :: real)"
    by simp_all
  have h2: "1 / 2 \<le> (3 / 4 :: real)" and n2: "\<not> (3 / 4 :: real) < 1 / 2"
    by simp_all
  show ?thesis
    using h1 n1 h2 n2 helloWorld_outcomes [of "1 / 4" 3 init] helloWorld_outcomes [of "3 / 4" 3 init]
    by blast
qed

section \<open>Spans: timestamps and roots\<close>

lemma parents_below_StartSpan:
  "parents_below sps \<Longrightarrow> parents_below (snd (StartSpan t c name sps))"
  by (auto simp add: parents_below_def StartSpan_def Let_def nth_append less_Suc_eq
      split: option.splits if_splits)

lemma parents_below_SetAttributes:
  "parents_below sps \<Longrightarrow> parents_below (SetAttributes i kvs sps)"
  by (auto simp add: parents_below_def SetAttributes_def nth_list_update)

lemma parents_below_EndSpan:
  "parents_below sps \<Longrightarrow> parents_below (EndSpan t i sps)"
  by (auto simp add: parents_below_def EndSpan_def nth_list_update)

lemma parents_below_apply_op:
  "parents_below (recorded rc) \<Longrightarrow> parents_below (recorded (apply_op x rc))"
  by (cases x) (simp_all add: parents_below_StartSpan parents_below_SetAttributes parents_below_EndSpan)

lemma stamps_ok_apply_op:
  "stamps_ok rc \<Longrightarrow> stamps_ok (apply_op x rc)"
proof (cases x)
  case (Start c name)
  assume "stamps_ok rc"
  with Start show ?thesis
    by (auto simp add: stamps_ok_def StartSpan_def Let_def)
next
  case (SetAttrs i kvs)
  assume ok: "stamps_ok rc"
  show ?thesis
    unfolding stamps_ok_def
  proof
    fix sp assume "sp \<in> set (recorded (apply_op x rc))"
    then have "sp \<in> set (recorded rc)
        \<or> (i < length (recorded rc)
            \<and> sp = (recorded rc ! i)\<lparr>sp_attrs := sp_attrs (recorded rc ! i) @ kvs\<rparr>)"
      using SetAttrs set_update_subset_insert [of "recorded rc" i]
      by (auto simp add: SetAttributes_def split: if_splits)
    then show "sp_start sp \<le> clock (apply_op x rc)
        \<and> (\<forall>e. sp_end sp = Some e \<longrightarrow> sp_start sp \<le> e \<and> e \<le> clock (apply_op x rc))"
      using ok SetAttrs unfolding stamps_ok_def by (auto dest: nth_mem)
  qed
next
  case (End i)
  assume ok: "stamps_ok rc"
  show ?thesis
    unfolding stamps_ok_def
  proof
    fix sp assume "sp \<in> set (recorded (apply_op x rc))"
    then have "sp \<in> set (recorded rc)
        \<or> (i < length (recorded rc) \<and> sp = (recorded rc ! i)\<lparr>sp_end := Some (clock rc)\<rparr>)"
      using End set_update_subset_insert [of "recorded rc" i]
      by (auto simp add: EndSpan_def split: if_splits)
    then show "sp_start sp \<le> clock (apply_op x rc)
        \<and> (\<forall>e. sp_end sp = Some e \<longrightarrow> sp_start sp \<le> e \<and> e \<le> clock (apply_op x rc))"
      using ok End unfolding stamps_ok_def by (auto dest: nth_mem)
  qed
next
  case (Wait d)
  assume "stamps_ok rc"
  with Wait show ?thesis
    by (fastforce simp add: stamps_ok_def)
qed

lemma apply_ops_invariants:
  "stamps_ok rc \<Longrightarrow> parents_below (recorded rc) \<Longrightarrow>
   stamps_ok (apply_ops xs rc) \<and> parents_below (recorded (apply_ops xs rc))"
  by (induction xs arbitrary: rc) (simp_all add: stamps_ok_apply_op parents_below_apply_op)

subsection \<open>Every trace has one root\<close>

lemma root_from_root:
  "sp_parent (sps ! j) = None \<Longrightarrow> root_from sps k j = j"
  by (cases k) simp_all

lemma root_from_is_root:
  assumes "parents_below sps"
  shows "i < length sps \<Longrightarrow> i \<le> k \<Longrightarrow>
         root_from sps k i < length sps \<and> sp_parent (sps ! root_from sps k i) = None"
proof (induction k arbitrary: i)
  case 0
  then have "i = 0" by simp
  moreover have "sp_parent (sps ! 0) = None"
  proof (cases "sp_parent (sps ! 0)")
    case None
    then show ?thesis .
  next
    case (Some p)
    with assms 0 \<open>i = 0\<close> have "p < 0"
      unfolding parents_below_def by blast
    then show ?thesis by simp
  qed
  ultimately show ?case using 0 by simp
next
  case (Suc k)
  show ?case
  proof (cases "sp_parent (sps ! i)")
    case None
    with Suc.prems show ?thesis by simp
  next
    case (Some p)
    with assms Suc.prems have "p < i"
      unfolding parents_below_def by blast
    with Suc.prems have "p < length sps" and "p \<le> k"
      by simp_all
    from Suc.IH [OF this] Some Suc.prems show ?thesis by simp
  qed
qed

lemma filter_eq_single:
  "r < n \<Longrightarrow> filter (\<lambda>j. j = r) [0..<n] = [r]"
proof (induction n)
  case 0
  then show ?case by simp
next
  case (Suc n)
  show ?case
  proof (cases "r = n")
    case True
    have "filter (\<lambda>j. j = n) [0..<n] = []"
      by (simp add: filter_empty_conv)
    with True show ?thesis by simp
  next
    case False
    with Suc have "filter (\<lambda>j. j = r) [0..<n] = [r]" by simp
    with False show ?thesis by simp
  qed
qed

lemma one_root_per_trace:
  assumes "parents_below sps" and "i < length sps"
  shows "roots_of_trace sps i = [root_of sps i]"
proof -
  let ?r = "root_of sps i"
  have r: "?r < length sps \<and> sp_parent (sps ! ?r) = None"
    unfolding root_of_def using assms by (intro root_from_is_root) simp_all
  have "sp_parent (sps ! j) = None \<and> root_of sps j = ?r \<longleftrightarrow> j = ?r" for j
    using r by (auto simp add: root_of_def root_from_root)
  then have "roots_of_trace sps i = filter (\<lambda>j. j = ?r) [0..<length sps]"
    by (simp add: roots_of_trace_def)
  with r show ?thesis by (simp add: filter_eq_single)
qed

subsection \<open>The spans of the handlers\<close>

lemma handle_closed_root:
  "list_all closed_root (spans (tel s)) \<Longrightarrow> list_all closed_root (spans (tel (snd (handle sdk c s))))"
  by (cases c)
    (simp_all add: helloWorld_spans cartAdd_spans cartRemove_spans closed_root_def server_request_def)

lemma run_closed_root:
  "list_all closed_root (spans (tel s)) \<Longrightarrow> list_all closed_root (spans (tel (run sdk cs s)))"
  by (induction cs arbitrary: s) (simp_all add: handle_closed_root)

lemma closed_roots_parents_below:
  "list_all closed_root sps \<Longrightarrow> parents_below sps"
  by (simp add: parents_below_def list_all_length closed_root_def)

text \<open>
  C9: after any sequence of \<open>StartSpan\<close>, \<open>SetAttributes\<close> and \<open>EndSpan\<close> calls on an
  empty recorder, with any time passing in between, every span that has an end timestamp
  has it at or after its start timestamp, and the trace of every span holds exactly one
  root span. In the program, after any sequence of requests served one after the other,
  every span is closed with its end at or after its start, and is the one root of its
  own trace.
\<close>

theorem spans_well_formed:
  "(i < length (recorded (apply_ops ops \<lparr>clock = t0, recorded = []\<rparr>)) \<longrightarrow>
      (\<forall>e. sp_end (recorded (apply_ops ops \<lparr>clock = t0, recorded = []\<rparr>) ! i) = Some e \<longrightarrow>
           sp_start (recorded (apply_ops ops \<lparr>clock = t0, recorded = []\<rparr>) ! i) \<le> e)
      \<and> roots_of_trace (recorded (apply_ops ops \<lparr>clock = t0, recorded = []\<rparr>)) i =
          [root_of (recorded (apply_ops ops \<lparr>clock = t0, recorded = []\<rparr>)) i])
   \<and> (j < length (spans (tel (run sdk cs init))) \<longrightarrow>
      (\<exists>e. sp_end (spans (tel (run sdk cs init)) ! j) = Some e
          \<and> sp_start (spans (tel (run sdk cs init)) ! j) \<le> e)
      \<and> roots_of_trace (spans (tel (run sdk cs init))) j = [j])"
proof (intro conjI impI)
  let ?rc = "apply_ops ops \<lparr>clock = t0, recorded = []\<rparr>"
  assume i: "i < length (recorded ?rc)"
  have inv: "stamps_ok ?rc \<and> parents_below (recorded ?rc)"
    by (intro apply_ops_invariants) (simp_all add: stamps_ok_def parents_below_def)
  from i have "recorded ?rc ! i \<in> set (recorded ?rc)"
    by simp
  with inv show "\<forall>e. sp_end (recorded ?rc ! i) = Some e \<longrightarrow> sp_start (recorded ?rc ! i) \<le> e"
    unfolding stamps_ok_def by blast
  from inv i show "roots_of_trace (recorded ?rc) i = [root_of (recorded ?rc) i]"
    by (intro one_root_per_trace) simp_all
next
  let ?sps = "spans (tel (run sdk cs init))"
  assume j: "j < length ?sps"
  have all: "list_all closed_root ?sps"
    by (intro run_closed_root) (simp add: init_def sdk_init_def)
  with j have cr: "closed_root (?sps ! j)"
    by (simp add: list_all_length)
  then show "\<exists>e. sp_end (?sps ! j) = Some e \<and> sp_start (?sps ! j) \<le> e"
    by (simp add: closed_root_def)
  from cr have "root_of ?sps j = j"
    by (simp add: root_of_def root_from_root closed_root_def)
  with one_root_per_trace [OF closed_roots_parents_below [OF all] j]
  show "roots_of_trace ?sps j = [j]"
    by simp
qed

theorem spans_well_formed_witness:
  "(0 :: nat) < length (recorded (apply_ops span_scenario \<lparr>clock = 5, recorded = []\<rparr>))
   \<and> sp_end (recorded (apply_ops span_scenario \<lparr>clock = 5, recorded = []\<rparr>) ! 0) = Some 15
   \<and> sp_start (recorded (apply_ops span_scenario \<lparr>clock = 5, recorded = []\<rparr>) ! 0) \<le> 15
   \<and> roots_of_trace (recorded (apply_ops span_scenario \<lparr>clock = 5, recorded = []\<rparr>)) 0 =
       [root_of (recorded (apply_ops span_scenario \<lparr>clock = 5, recorded = []\<rparr>)) 0]
   \<and> (1 :: nat) < length (spans (tel (run sdk [CartAdd 2, HelloWorld 0 3] init)))
   \<and> roots_of_trace (spans (tel (run sdk [CartAdd 2, HelloWorld 0 3] init))) 1 = [1]"
proof -
  have h1: "(0 :: nat) < length (recorded (apply_ops span_scenario \<lparr>clock = 5, recorded = []\<rparr>))"
    by code_simp
  have h2: "sp_end (recorded (apply_ops span_scenario \<lparr>clock = 5, recorded = []\<rparr>) ! 0) = Some 15"
    by code_simp
  have h3: "(1 :: nat) < length (spans (tel (run sdk [CartAdd 2, HelloWorld 0 3] init)))"
    by (simp add: helloWorld_spans cartAdd_spans)
  show ?thesis
    using h1 h2 h3 spans_well_formed [of 0 span_scenario 5 1 "[CartAdd 2, HelloWorld 0 3]"]
    by blast
qed

end
